theory Spec2Isabelle
  imports Main
begin

section \<open>The media process supervisor (src/media_context.ts)\<close>

text \<open>
  \<^verbatim>\<open>MediaContext\<close> holds two private fields, \<^verbatim>\<open>process\<close> and \<^verbatim>\<open>promise\<close>, and talks to
  child processes spawned with \<^verbatim>\<open>spawn('ffmpeg', args)\<close>. A child process is identified by
  the number of processes spawned before it. The closures created by one call of
  \<^verbatim>\<open>execute\<close> (the two stream listeners, the promise with its \<^verbatim>\<open>resolve\<close> and \<^verbatim>\<open>reject\<close>,
  the two event handlers and the \<^verbatim>\<open>after\<close> callback) all belong to the process spawned by
  that call and carry its number.
\<close>

type_synonym pid = nat

datatype stream = Stdout | Stderr

text \<open>
  The \<^verbatim>\<open>after\<close> callbacks the source passes to \<^verbatim>\<open>execute\<close>: \<^verbatim>\<open>this.default\<close> of
  \<^verbatim>\<open>SoundContext\<close>, \<^verbatim>\<open>this.default\<close> of \<^verbatim>\<open>VideoContext\<close>, and the arrow function of
  \<^verbatim>\<open>play_stdin\<close>.
\<close>

datatype callback = SoundDefault | VideoDefault | StdinEnded

text \<open>
  A \<^verbatim>\<open>Promise<number>\<close>. The exit code of a child that was ended by a signal is \<^verbatim>\<open>null\<close>,
  which is \<open>None\<close> here.
\<close>

datatype settle = Pending | Resolved "int option" | Rejected string

datatype error = TypeError | Disabled

datatype message =
    AlreadyOnExecution
  | AlreadyStoped
  | ProcessExitedWithCode "int option"
  | ProcessExitedWithError string
  | ProcessError string
  | SignalSended bool
  | VideoFileNotFound string
  | SequenceEnded

text \<open>What the supervisor does, in the order in which it does it.\<close>

datatype action =
    Console message
  | Spawned pid "string list"
  | Added stream pid pid
  | Removed stream pid pid
  | SlotCleared
  | Invoked callback
  | Resolve pid "int option"
  | Reject pid string
  | Killed pid

record proc =
  argv :: "string list"
  after_cb :: callback
  alive :: bool
  stdout_listeners :: "pid list"
  stderr_listeners :: "pid list"
  sigterms :: nat

text \<open>
  One controller together with what it can see: its two fields, the child processes it has
  spawned, the promises it has created (promise \<open>k\<close> is the one created by the call that
  spawned process \<open>k\<close>), the promises on which a \<^verbatim>\<open>stop_process\<close> is suspended, the
  environment variables and files it reads, and the trace of its actions. The field
  \<open>sampleRate\<close> holds the text that the template literal \<^verbatim>\<open>${this.sampleRate}\<close> renders
  for the number given to the constructor of \<^verbatim>\<open>SoundContext\<close>; the \<^verbatim>\<open>fps\<close> of
  \<^verbatim>\<open>VideoContext\<close> is never read. The controller
  is the one stored in the static \<^verbatim>\<open>instance\<close> field of its class, which the constructor
  sets, so that \<^verbatim>\<open>default\<close> plays on this controller.
\<close>

record world =
  process :: "pid option"
  promise :: "pid option"
  procs :: "proc list"
  signals :: "settle list"
  awaiting :: "pid list"
  sampleRate :: string
  VIRTUAL_MIC :: "string option"
  VIDEO_DEVICE :: "string option"
  files :: "string list"
  trace :: "action list"

text \<open>\<^verbatim>\<open>a || b\<close> on strings: the empty string and \<^verbatim>\<open>undefined\<close> are falsy.\<close>

definition or_default :: "string option \<Rightarrow> string \<Rightarrow> string" where
  "or_default v d = (case v of None \<Rightarrow> d | Some x \<Rightarrow> if x = [] then d else x)"

definition MICRO_DEVICE :: "world \<Rightarrow> string" where
  "MICRO_DEVICE s = ''pulse:'' @ or_default (VIRTUAL_MIC s) ''virtual_mic''"

definition CAMERA_DEVICE :: "world \<Rightarrow> string" where
  "CAMERA_DEVICE s = or_default (VIDEO_DEVICE s) ''/dev/video10''"

definition existsSync :: "world \<Rightarrow> string \<Rightarrow> bool" where
  "existsSync s pathname = (pathname \<in> set (files s))"

text \<open>The constructor: both fields are \<^verbatim>\<open>null\<close>.\<close>

definition init :: "string \<Rightarrow> string option \<Rightarrow> string option \<Rightarrow> string list \<Rightarrow> world" where
  "init rate mic cam fs =
     \<lparr>process = None, promise = None, procs = [], signals = [], awaiting = [],
      sampleRate = rate, VIRTUAL_MIC = mic, VIDEO_DEVICE = cam, files = fs, trace = []\<rparr>"

definition does :: "action list \<Rightarrow> world \<Rightarrow> world" where
  "does as s = s\<lparr>trace := trace s @ as\<rparr>"

definition say :: "message \<Rightarrow> world \<Rightarrow> world" where
  "say m s = does [Console m] s"

definition map_at :: "nat \<Rightarrow> ('a \<Rightarrow> 'a) \<Rightarrow> 'a list \<Rightarrow> 'a list" where
  "map_at i f xs = (if i < length xs then xs[i := f (xs ! i)] else xs)"

subsection \<open>execute\<close>

definition new_proc :: "pid \<Rightarrow> string list \<Rightarrow> callback \<Rightarrow> proc" where
  "new_proc k args cb =
     \<lparr>argv = args, after_cb = cb, alive = True,
      stdout_listeners = [k], stderr_listeners = [k], sigterms = 0\<rparr>"

text \<open>
  Returns \<^verbatim>\<open>null\<close> (\<open>None\<close>) when a process is in the slot, and the new process otherwise.
\<close>

definition execute :: "string list \<Rightarrow> callback \<Rightarrow> world \<Rightarrow> pid option \<times> world" where
  "execute args cb s =
     (case process s of
        Some q \<Rightarrow> (None, say AlreadyOnExecution s)
      | None \<Rightarrow>
          (let k = length (procs s)
           in (Some k,
               does [Spawned k args, Added Stdout k k, Added Stderr k k]
                 (s\<lparr>process := Some k, promise := Some k,
                    procs := procs s @ [new_proc k args cb],
                    signals := signals s @ [Pending]\<rparr>))))"

subsection \<open>SoundContext and VideoContext\<close>

definition loop_args :: "bool \<Rightarrow> string list" where
  "loop_args loop = (if loop then [''-stream_loop'', ''-1''] else [])"

definition sound_args :: "world \<Rightarrow> string \<Rightarrow> bool \<Rightarrow> string list" where
  "sound_args s pathname loop =
     loop_args loop @
     [''-re'', ''-i'', pathname, ''-f'', ''alsa'', ''-acodec'', ''pcm_s16le'', MICRO_DEVICE s]"

definition sound_play :: "string \<Rightarrow> bool \<Rightarrow> world \<Rightarrow> world" where
  "sound_play pathname loop s = snd (execute (sound_args s pathname loop) SoundDefault s)"

definition sound_default :: "world \<Rightarrow> world" where
  "sound_default s = sound_play ''../silence.opus'' False s"

definition stdin_args :: "world \<Rightarrow> string list" where
  "stdin_args s =
     [''-f'', ''f32le'', ''-ar'', sampleRate s, ''-ac'', ''1'', ''-i'', ''-'',
      ''-f'', ''alsa'', ''-acodec'', ''pcm_s16le'', MICRO_DEVICE s]"

text \<open>
  \<^verbatim>\<open>play_stdin\<close> reads the property \<^verbatim>\<open>stdin\<close> of what \<^verbatim>\<open>execute\<close> returns. Reading a
  property of \<^verbatim>\<open>null\<close> throws a \<^verbatim>\<open>TypeError\<close>; what \<^verbatim>\<open>execute\<close> did before stays done. The
  input stream of a process is identified by the process.
\<close>

definition sound_play_stdin :: "world \<Rightarrow> (error + pid) \<times> world" where
  "sound_play_stdin s =
     (case execute (stdin_args s) StdinEnded s of
        (None, s') \<Rightarrow> (Inl TypeError, s')
      | (Some k, s') \<Rightarrow> (Inr k, s'))"

definition video_args :: "world \<Rightarrow> string \<Rightarrow> bool \<Rightarrow> string list" where
  "video_args s pathname loop =
     loop_args loop @
     [''-re'', ''-i'', pathname, ''-f'', ''v4l2'', ''-vcodec'', ''mjpeg'', ''-q:v'', ''5'',
      ''-threads'', ''0'', CAMERA_DEVICE s]"

definition video_play :: "string \<Rightarrow> bool \<Rightarrow> world \<Rightarrow> world" where
  "video_play pathname loop s =
     (if \<not> existsSync s pathname then say (VideoFileNotFound pathname) s
      else snd (execute (video_args s pathname loop) VideoDefault s))"

definition video_default :: "world \<Rightarrow> world" where
  "video_default s = video_play ''../branding.mjpeg'' True s"

text \<open>Calling \<^verbatim>\<open>after()\<close>.\<close>

definition run_after :: "callback \<Rightarrow> world \<Rightarrow> world" where
  "run_after cb s =
     (case cb of
        SoundDefault \<Rightarrow> sound_default (does [Invoked cb] s)
      | VideoDefault \<Rightarrow> video_default (does [Invoked cb] s)
      | StdinEnded \<Rightarrow> say SequenceEnded (does [Invoked cb] s))"

subsection \<open>The handlers of the exit and error events\<close>

text \<open>
  \<^verbatim>\<open>removeListener\<close> takes the most recently added instance of the listener off the
  stream, and does nothing when the listener is not on it.
\<close>

definition drop_last :: "pid \<Rightarrow> pid list \<Rightarrow> pid list" where
  "drop_last l ls = rev (remove1 l (rev ls))"

definition remove_listener :: "stream \<Rightarrow> pid \<Rightarrow> pid \<Rightarrow> world \<Rightarrow> world" where
  "remove_listener st q l s =
     does [Removed st q l]
       (s\<lparr>procs :=
            map_at q
              (\<lambda>p. case st of
                     Stdout \<Rightarrow> p\<lparr>stdout_listeners := drop_last l (stdout_listeners p)\<rparr>
                   | Stderr \<Rightarrow> p\<lparr>stderr_listeners := drop_last l (stderr_listeners p)\<rparr>)
              (procs s)\<rparr>)"

text \<open>Settling a promise that is already settled changes nothing.\<close>

definition settle_signal :: "pid \<Rightarrow> settle \<Rightarrow> world \<Rightarrow> world" where
  "settle_signal k v s =
     s\<lparr>signals := map_at k (\<lambda>old. if old = Pending then v else old) (signals s)\<rparr>"

definition resolve :: "pid \<Rightarrow> int option \<Rightarrow> world \<Rightarrow> world" where
  "resolve k code s = does [Resolve k code] (settle_signal k (Resolved code) s)"

definition reject :: "pid \<Rightarrow> string \<Rightarrow> world \<Rightarrow> world" where
  "reject k err s = does [Reject k err] (settle_signal k (Rejected err) s)"

text \<open>
  The handler that the call which spawned process \<open>k\<close> with callback \<open>cb\<close> registered for
  the exit event of \<open>k\<close>. It reads \<^verbatim>\<open>this.process\<close> when it runs; with \<^verbatim>\<open>null\<close> there,
  \<^verbatim>\<open>this.process.stdout\<close> throws.
\<close>

definition detach_listeners :: "pid \<Rightarrow> pid \<Rightarrow> world \<Rightarrow> world" where
  "detach_listeners q k s = remove_listener Stderr q k (remove_listener Stdout q k s)"

definition exit_handler :: "pid \<Rightarrow> callback \<Rightarrow> int option \<Rightarrow> world \<Rightarrow> error + world" where
  "exit_handler k cb code s =
     (let s0 = say (ProcessExitedWithCode code) s
      in case process s0 of
           None \<Rightarrow> Inl TypeError
         | Some q \<Rightarrow>
             (let s1 = detach_listeners q k s0;
                  s2 = (if code = Some 0
                        then run_after cb (does [SlotCleared] (s1\<lparr>process := None\<rparr>))
                        else s1)
              in Inr (resolve k code s2)))"

definition error_handler :: "pid \<Rightarrow> string \<Rightarrow> world \<Rightarrow> error + world" where
  "error_handler k err s =
     (let s0 = say (ProcessError err) s
      in case process s0 of
           None \<Rightarrow> Inl TypeError
         | Some q \<Rightarrow> Inr (reject k err (detach_listeners q k s0)))"

subsection \<open>stop_process\<close>

text \<open>
  \<^verbatim>\<open>stop_process\<close> is asynchronous. \<open>stop_begin\<close> is what it does until it suspends at
  \<^verbatim>\<open>await\<close>: with an empty slot it returns at once, otherwise it sends \<^verbatim>\<open>SIGTERM\<close> and
  chains \<^verbatim>\<open>then\<close>, \<^verbatim>\<open>catch\<close> and \<^verbatim>\<open>finally\<close> on the promise that is in the field at that
  moment. \<^verbatim>\<open>kill\<close> answers whether the signal was delivered.
\<close>

definition stop_begin :: "world \<Rightarrow> error + world" where
  "stop_begin s =
     (case process s of
        None \<Rightarrow> Inr (say AlreadyStoped s)
      | Some q \<Rightarrow>
          (let res = (q < length (procs s) \<and> alive (procs s ! q));
               s1 = does [Killed q, Console (SignalSended res)]
                      (s\<lparr>procs := map_at q (\<lambda>p. p\<lparr>sigterms := Suc (sigterms p)\<rparr>) (procs s)\<rparr>)
           in case promise s1 of
                None \<Rightarrow> Inl TypeError
              | Some j \<Rightarrow> Inr (s1\<lparr>awaiting := awaiting s1 @ [j]\<rparr>)))"

text \<open>
  \<open>stop_finish j\<close> is the rest of a \<^verbatim>\<open>stop_process\<close> that is suspended on promise \<open>j\<close>,
  run once that promise is settled: the outcome is logged and both fields are set to
  \<^verbatim>\<open>null\<close>.
\<close>

definition stop_finish :: "pid \<Rightarrow> world \<Rightarrow> error + world" where
  "stop_finish j s =
     (if j \<in> set (awaiting s) \<and> j < length (signals s)
      then (case signals s ! j of
              Pending \<Rightarrow> Inl Disabled
            | Resolved code \<Rightarrow>
                Inr ((say (ProcessExitedWithCode code) s)
                       \<lparr>process := None, promise := None, awaiting := remove1 j (awaiting s)\<rparr>)
            | Rejected err \<Rightarrow>
                Inr ((say (ProcessExitedWithError err) s)
                       \<lparr>process := None, promise := None, awaiting := remove1 j (awaiting s)\<rparr>))
      else Inl Disabled)"

subsection \<open>Sequences of calls and events\<close>

text \<open>
  What can happen to a controller: a call of one of its methods, the resumption of a
  suspended \<^verbatim>\<open>stop_process\<close>, and the exit or error event of a child process. A child
  process has at most one of the two events, and a suspended \<^verbatim>\<open>stop_process\<close> resumes only
  after its promise is settled; \<open>Disabled\<close> marks an event that cannot happen in the state.
  An exception that a handler throws ends the run.
\<close>

datatype event =
    Execute "string list" callback
  | SoundPlay string bool
  | SoundPlayStdin
  | VideoPlay string bool
  | Stop
  | StopResume pid
  | Exit pid "int option"
  | Error pid string

definition ended :: "pid \<Rightarrow> world \<Rightarrow> world" where
  "ended k s = s\<lparr>procs := map_at k (\<lambda>p. p\<lparr>alive := False\<rparr>) (procs s)\<rparr>"

definition step :: "event \<Rightarrow> world \<Rightarrow> error + world" where
  "step e s =
     (case e of
        Execute args cb \<Rightarrow> Inr (snd (execute args cb s))
      | SoundPlay pathname loop \<Rightarrow> Inr (sound_play pathname loop s)
      | SoundPlayStdin \<Rightarrow>
          (case sound_play_stdin s of (Inl x, s') \<Rightarrow> Inl x | (Inr k, s') \<Rightarrow> Inr s')
      | VideoPlay pathname loop \<Rightarrow> Inr (video_play pathname loop s)
      | Stop \<Rightarrow> stop_begin s
      | StopResume j \<Rightarrow> stop_finish j s
      | Exit k code \<Rightarrow>
          (if k < length (procs s) \<and> alive (procs s ! k)
           then exit_handler k (after_cb (procs s ! k)) code (ended k s)
           else Inl Disabled)
      | Error k err \<Rightarrow>
          (if k < length (procs s) \<and> alive (procs s ! k)
           then error_handler k err (ended k s)
           else Inl Disabled))"

fun run :: "event list \<Rightarrow> world \<Rightarrow> error + world" where
  "run [] s = Inr s"
| "run (e # es) s = (case step e s of Inl x \<Rightarrow> Inl x | Inr s' \<Rightarrow> run es s')"

text \<open>A sequence of calls of \<^verbatim>\<open>execute\<close>, one after the other.\<close>

fun execute_all :: "(string list \<times> callback) list \<Rightarrow> world \<Rightarrow> world" where
  "execute_all [] s = s"
| "execute_all ((args, cb) # xs) s = execute_all xs (snd (execute args cb s))"

section \<open>The S3 uploader (src/utils/S3Uploader.ts)\<close>

text \<open>
  The uploader reads the process-wide configuration \<^verbatim>\<open>GLOBAL\<close> of \<^verbatim>\<open>../singleton\<close>, two
  environment variables and the file system, and runs the \<^verbatim>\<open>aws\<close> command line tool.
  \<^verbatim>\<open>GLOBAL.isServerless()\<close> and \<^verbatim>\<open>GLOBAL.get().remote\<close> are taken as they are read; what
  the \<^verbatim>\<open>aws\<close> process does with given arguments is a parameter.
\<close>

record remote =
  s3_args :: "string list option"
  aws_s3_public :: "bool option"
  aws_s3_log_bucket :: string

text \<open>
  The end of an \<^verbatim>\<open>aws\<close> process. \<open>AwsClose\<close> is a close event with the exit code and all
  that was written to the output and to the diagnostic output. \<open>AwsError\<close> is an error
  event with its message, followed by the close event that the child process emits after
  it. The first event that settles the promise decides the result; the handler of the later
  event still runs and logs. The line that the diagnostic listener prints for each chunk
  is not recorded.
\<close>

datatype aws_end =
    AwsError string "int option" string string
  | AwsClose "int option" string string

record s3_world =
  isServerless :: bool
  global_remote :: "remote option"
  S3_ARGS :: "string option"
  S3_ENDPOINT_env :: "string option"
  accessible :: "string list"
  aws :: "string list \<Rightarrow> aws_end"

datatype s3_error =
    FileDoesNotExist string
  | AwsFailedToStart string
  | S3UploadFailed "int option" string
  | S3SyncFailed "int option" string

datatype s3_action =
    SkippingUpload
  | UploadCommand "string list"
  | SyncCommand "string list"
  | SpawnedAws "string list"
  | UploadErrorLogged s3_error

definition S3_ENDPOINT :: "s3_world \<Rightarrow> string" where
  "S3_ENDPOINT w = or_default (S3_ENDPOINT_env w) ''s3.fr-par.scw.cloud''"

text \<open>\<^verbatim>\<open>text.split(' ')\<close>.\<close>

fun split_spaces :: "string \<Rightarrow> string \<Rightarrow> string list" where
  "split_spaces acc [] = [rev acc]"
| "split_spaces acc (c # cs) =
     (if c = CHR '' '' then rev acc # split_spaces [] cs else split_spaces (c # acc) cs)"

definition getS3Args :: "s3_world \<Rightarrow> string list option \<Rightarrow> string list" where
  "getS3Args w s3Args =
     (case s3Args of
        Some (a # as) \<Rightarrow> a # as
      | _ \<Rightarrow>
          (case (case global_remote w of None \<Rightarrow> None | Some r \<Rightarrow> s3_args r) of
             Some (b # bs) \<Rightarrow> b # bs
           | _ \<Rightarrow>
               (case S3_ARGS w of
                  None \<Rightarrow> []
                | Some text \<Rightarrow> if text = [] then [] else split_spaces [] text)))"

text \<open>\<^verbatim>\<open>GLOBAL.get().remote?.aws_s3_public !== false\<close>.\<close>

definition acl_args :: "s3_world \<Rightarrow> string list" where
  "acl_args w =
     (if (case global_remote w of None \<Rightarrow> None | Some r \<Rightarrow> aws_s3_public r) \<noteq> Some False
      then [''--acl'', ''public-read''] else [])"

definition publicUrl :: "s3_world \<Rightarrow> string \<Rightarrow> string \<Rightarrow> string" where
  "publicUrl w bucketName s3Path = ''https://'' @ bucketName @ ''.'' @ S3_ENDPOINT w @ ''/'' @ s3Path"

text \<open>
  The result of an upload is the value its promise resolves to (\<open>Inr\<close>) or the error it is
  rejected with (\<open>Inl\<close>), together with what was done.
\<close>

definition uploadFile ::
  "s3_world \<Rightarrow> string \<Rightarrow> string \<Rightarrow> string \<Rightarrow> string list option \<Rightarrow> bool \<Rightarrow>
   (s3_error + string) \<times> s3_action list" where
  "uploadFile w filePath bucketName s3Path s3Args isAudio =
     (if isServerless w then (Inr [], [SkippingUpload])
      else if filePath \<notin> set (accessible w)
      then (Inl (FileDoesNotExist filePath), [UploadErrorLogged (FileDoesNotExist filePath)])
      else
        (let s3FullPath = ''s3://'' @ bucketName @ ''/'' @ s3Path;
             fullArgs = getS3Args w s3Args @ [''s3'', ''cp'', filePath, s3FullPath] @ acl_args w
         in case aws w fullArgs of
              AwsError m code output errorOutput \<Rightarrow>
                (Inl (AwsFailedToStart m),
                 [UploadCommand fullArgs, SpawnedAws fullArgs,
                  UploadErrorLogged (AwsFailedToStart m)] @
                 (if code = Some 0 then []
                  else [UploadErrorLogged
                          (S3UploadFailed code (if errorOutput = [] then output else errorOutput))]))
            | AwsClose code output errorOutput \<Rightarrow>
                (if code = Some 0
                 then (Inr (publicUrl w bucketName s3Path),
                       [UploadCommand fullArgs, SpawnedAws fullArgs])
                 else
                   (Inl (S3UploadFailed code (if errorOutput = [] then output else errorOutput)),
                    [UploadCommand fullArgs, SpawnedAws fullArgs,
                     UploadErrorLogged
                       (S3UploadFailed code (if errorOutput = [] then output else errorOutput))]))))"

definition uploadDirectory ::
  "s3_world \<Rightarrow> string \<Rightarrow> string \<Rightarrow> string \<Rightarrow> string list option \<Rightarrow>
   (s3_error + string) \<times> s3_action list" where
  "uploadDirectory w localDir bucketName s3Path s3Args =
     (if isServerless w then (Inr [], [SkippingUpload])
      else
        (let s3FullPath = ''s3://'' @ bucketName @ ''/'' @ s3Path;
             fullArgs =
               getS3Args w s3Args @ [''s3'', ''sync'', localDir, s3FullPath, ''--delete''] @
               acl_args w
         in case aws w fullArgs of
              AwsError m code output errorOutput \<Rightarrow>
                (Inl (AwsFailedToStart m),
                 [SyncCommand fullArgs, SpawnedAws fullArgs,
                  UploadErrorLogged (AwsFailedToStart m)] @
                 (if code = Some 0 then []
                  else [UploadErrorLogged
                          (S3SyncFailed code (if errorOutput = [] then output else errorOutput))]))
            | AwsClose code output errorOutput \<Rightarrow>
                (if code = Some 0
                 then (Inr (publicUrl w bucketName s3Path),
                       [SyncCommand fullArgs, SpawnedAws fullArgs])
                 else
                   (Inl (S3SyncFailed code (if errorOutput = [] then output else errorOutput)),
                    [SyncCommand fullArgs, SpawnedAws fullArgs,
                     UploadErrorLogged
                       (S3SyncFailed code (if errorOutput = [] then output else errorOutput))]))))"

section \<open>Properties of the supervisor\<close>

subsection \<open>Basic facts\<close>

lemma does_fields:
  "process (does as s) = process s"
  "promise (does as s) = promise s"
  "procs (does as s) = procs s"
  "signals (does as s) = signals s"
  "awaiting (does as s) = awaiting s"
  "sampleRate (does as s) = sampleRate s"
  "VIRTUAL_MIC (does as s) = VIRTUAL_MIC s"
  "VIDEO_DEVICE (does as s) = VIDEO_DEVICE s"
  "files (does as s) = files s"
  "trace (does as s) = trace s @ as"
  by (simp_all add: does_def)

lemma does_does: "does bs (does as s) = does (as @ bs) s"
  by (simp add: does_def)

lemma does_Nil: "does [] s = s"
  by (simp add: does_def)

lemma execute_busy:
  "process s = Some q \<Longrightarrow> execute args cb s = (None, does [Console AlreadyOnExecution] s)"
  by (simp add: execute_def say_def)

lemma execute_all_busy:
  "process s = Some q \<Longrightarrow>
   execute_all xs s = does (replicate (length xs) (Console AlreadyOnExecution)) s"
proof (induction xs arbitrary: s)
  case Nil
  show ?case by (simp add: does_Nil)
next
  case (Cons x xs)
  obtain args cb where x: "x = (args, cb)" by (cases x)
  have busy: "process (does [Console AlreadyOnExecution] s) = Some q"
    using Cons.prems by (simp add: does_fields)
  show ?case
    using Cons.IH [OF busy] Cons.prems
    by (simp add: x execute_busy does_does replicate_append_same)
qed

lemma execute_idle:
  "process s = None \<Longrightarrow>
   execute args cb s =
     (Some (length (procs s)),
      s\<lparr>process := Some (length (procs s)), promise := Some (length (procs s)),
        procs := procs s @ [new_proc (length (procs s)) args cb],
        signals := signals s @ [Pending],
        trace := trace s @ [Spawned (length (procs s)) args,
                            Added Stdout (length (procs s)) (length (procs s)),
                            Added Stderr (length (procs s)) (length (procs s))]\<rparr>)"
  by (simp add: execute_def does_def Let_def)

subsection \<open>A call of execute while a process is active\<close>

text \<open>
  Claim C3. A call of \<^verbatim>\<open>execute\<close> while a process is in the slot returns the no-op
  indicator \<^verbatim>\<open>null\<close> and changes nothing but the trace, to which it adds the warning: no
  process is spawned and the fields, the processes and the promises stay as they are. In a
  sequence of calls that starts with an empty slot, the first call spawns a process and
  every later call only adds its warning.
\<close>

theorem execute_while_active_is_noop:
  "(process s = Some q \<longrightarrow>
      execute args cb s = (None, s\<lparr>trace := trace s @ [Console AlreadyOnExecution]\<rparr>)) \<and>
   (process s = None \<longrightarrow>
      execute_all ((args, cb) # xs) s =
        s\<lparr>process := Some (length (procs s)), promise := Some (length (procs s)),
          procs := procs s @ [new_proc (length (procs s)) args cb],
          signals := signals s @ [Pending],
          trace := trace s @
            [Spawned (length (procs s)) args,
             Added Stdout (length (procs s)) (length (procs s)),
             Added Stderr (length (procs s)) (length (procs s))] @
            replicate (length xs) (Console AlreadyOnExecution)\<rparr>)"
proof (intro conjI impI)
  assume "process s = Some q"
  then show "execute args cb s = (None, s\<lparr>trace := trace s @ [Console AlreadyOnExecution]\<rparr>)"
    by (simp add: execute_busy does_def)
next
  assume idle: "process s = None"
  let ?k = "length (procs s)"
  let ?s1 = "snd (execute args cb s)"
  have busy: "process ?s1 = Some ?k"
    using idle by (simp add: execute_idle)
  show "execute_all ((args, cb) # xs) s =
        s\<lparr>process := Some ?k, promise := Some ?k,
          procs := procs s @ [new_proc ?k args cb],
          signals := signals s @ [Pending],
          trace := trace s @
            [Spawned ?k args, Added Stdout ?k ?k, Added Stderr ?k ?k] @
            replicate (length xs) (Console AlreadyOnExecution)\<rparr>"
    using execute_all_busy [OF busy, of xs] idle
    by (simp add: execute_idle does_def)
qed

theorem execute_while_active_is_noop_witness:
  "process (snd (execute [''-i'', ''a.mp4''] VideoDefault (init ''0'' None None []))) = Some 0 \<and>
   execute [''-i'', ''b.mp4''] VideoDefault
       (snd (execute [''-i'', ''a.mp4''] VideoDefault (init ''0'' None None []))) =
     (None, (snd (execute [''-i'', ''a.mp4''] VideoDefault (init ''0'' None None [])))
              \<lparr>trace := [Spawned 0 [''-i'', ''a.mp4''], Added Stdout 0 0, Added Stderr 0 0,
                         Console AlreadyOnExecution]\<rparr>) \<and>
   process (init ''0'' None None []) = None \<and>
   length (procs (execute_all
       [([''-i'', ''a.mp4''], VideoDefault), ([''-i'', ''b.mp4''], VideoDefault),
        ([''-i'', ''c.mp4''], VideoDefault)] (init ''0'' None None []))) = 1"
  using execute_while_active_is_noop
    [of "snd (execute [''-i'', ''a.mp4''] VideoDefault (init ''0'' None None []))" 0
        "[''-i'', ''b.mp4'']" VideoDefault]
    execute_while_active_is_noop
    [of "init ''0'' None None []" 0 "[''-i'', ''a.mp4'']" VideoDefault
        "[([''-i'', ''b.mp4''], VideoDefault), ([''-i'', ''c.mp4''], VideoDefault)]"]
  by (simp add: init_def execute_def does_def Let_def)

subsection \<open>Video playback of a file that does not exist\<close>

text \<open>
  Claim C6. For a pathname that does not exist, \<^verbatim>\<open>VideoContext.play\<close> logs that the file
  was not found and returns: the state after the call is the state before it with that one
  line added to the trace, so no process is spawned, no callback is invoked and no field
  changes; the call cannot throw.
\<close>

theorem video_play_missing_file:
  "\<not> existsSync s pathname \<Longrightarrow>
   video_play pathname loop s = s\<lparr>trace := trace s @ [Console (VideoFileNotFound pathname)]\<rparr> \<and>
   step (VideoPlay pathname loop) s =
     Inr (s\<lparr>trace := trace s @ [Console (VideoFileNotFound pathname)]\<rparr>)"
  by (simp add: video_play_def step_def say_def does_def)

theorem video_play_missing_file_witness:
  "\<not> existsSync (init ''25'' None None [''../branding.mjpeg'']) ''missing.mjpeg'' \<and>
   video_play ''missing.mjpeg'' True (init ''25'' None None [''../branding.mjpeg'']) =
     (init ''25'' None None [''../branding.mjpeg''])
       \<lparr>trace := [Console (VideoFileNotFound ''missing.mjpeg'')]\<rparr>"
  using video_play_missing_file
    [of "init ''25'' None None [''../branding.mjpeg'']" "''missing.mjpeg''" True]
  by (simp add: existsSync_def init_def)

subsection \<open>The exit and error handlers\<close>

lemma remove_listener_fields:
  "process (remove_listener st q l s) = process s"
  "promise (remove_listener st q l s) = promise s"
  "signals (remove_listener st q l s) = signals s"
  "awaiting (remove_listener st q l s) = awaiting s"
  "files (remove_listener st q l s) = files s"
  "VIRTUAL_MIC (remove_listener st q l s) = VIRTUAL_MIC s"
  "VIDEO_DEVICE (remove_listener st q l s) = VIDEO_DEVICE s"
  "length (procs (remove_listener st q l s)) = length (procs s)"
  "trace (remove_listener st q l s) = trace s @ [Removed st q l]"
  by (simp_all add: remove_listener_def does_def map_at_def)

lemma detach_fields:
  "process (detach_listeners q k s) = process s"
  "promise (detach_listeners q k s) = promise s"
  "signals (detach_listeners q k s) = signals s"
  "awaiting (detach_listeners q k s) = awaiting s"
  "files (detach_listeners q k s) = files s"
  "VIRTUAL_MIC (detach_listeners q k s) = VIRTUAL_MIC s"
  "VIDEO_DEVICE (detach_listeners q k s) = VIDEO_DEVICE s"
  "length (procs (detach_listeners q k s)) = length (procs s)"
  "trace (detach_listeners q k s) = trace s @ [Removed Stdout q k, Removed Stderr q k]"
  by (simp_all add: detach_listeners_def remove_listener_fields)

lemma resolve_fields:
  "process (resolve k code s) = process s"
  "promise (resolve k code s) = promise s"
  "procs (resolve k code s) = procs s"
  "awaiting (resolve k code s) = awaiting s"
  "length (signals (resolve k code s)) = length (signals s)"
  "trace (resolve k code s) = trace s @ [Resolve k code]"
  by (simp_all add: resolve_def settle_signal_def does_def map_at_def)

lemma reject_fields:
  "process (reject k err s) = process s"
  "promise (reject k err s) = promise s"
  "procs (reject k err s) = procs s"
  "awaiting (reject k err s) = awaiting s"
  "length (signals (reject k err s)) = length (signals s)"
  "trace (reject k err s) = trace s @ [Reject k err]"
  by (simp_all add: reject_def settle_signal_def does_def map_at_def)

lemma resolve_pending:
  "k < length (signals s) \<Longrightarrow> signals s ! k = Pending \<Longrightarrow>
   signals (resolve k code s) ! k = Resolved code"
  by (simp add: resolve_def settle_signal_def does_def map_at_def)

lemma exit_handler_nonzero:
  "code \<noteq> Some 0 \<Longrightarrow> process s = Some q \<Longrightarrow>
   exit_handler k cb code s =
     Inr (resolve k code (detach_listeners q k (say (ProcessExitedWithCode code) s)))"
  by (simp add: exit_handler_def Let_def say_def does_fields)

lemma exit_handler_zero:
  "process s = Some q \<Longrightarrow>
   exit_handler k cb (Some 0) s =
     Inr (resolve k (Some 0)
            (run_after cb
               (does [SlotCleared]
                  ((detach_listeners q k (say (ProcessExitedWithCode (Some 0)) s))
                     \<lparr>process := None\<rparr>))))"
  by (simp add: exit_handler_def Let_def say_def does_fields)

lemma exit_handler_empty_slot:
  "process s = None \<Longrightarrow> exit_handler k cb code s = Inl TypeError"
  by (simp add: exit_handler_def Let_def say_def does_fields)

text \<open>
  The exit handler with a code other than 0 (or with \<^verbatim>\<open>null\<close>), run while a process is in
  the slot and the promise of \<open>k\<close> is pending: the promise is resolved with that code, the
  slot and the promise field keep their values, and the handler does exactly four things:
  the log line, the two calls of \<^verbatim>\<open>removeListener\<close> on the streams of the process in the slot,
  and the resolution.
\<close>

lemma exit_nonzero_keeps_slot:
  assumes "code \<noteq> Some 0" and "process s = Some q"
    and "k < length (signals s)" and "signals s ! k = Pending"
  shows "\<exists>s'. exit_handler k cb code s = Inr s' \<and>
           signals s' ! k = Resolved code \<and>
           process s' = Some q \<and> promise s' = promise s \<and>
           length (procs s') = length (procs s) \<and>
           trace s' = trace s @
             [Console (ProcessExitedWithCode code), Removed Stdout q k, Removed Stderr q k,
              Resolve k code]"
proof -
  let ?d = "detach_listeners q k (say (ProcessExitedWithCode code) s)"
  have "exit_handler k cb code s = Inr (resolve k code ?d)"
    using assms(1,2) by (rule exit_handler_nonzero)
  moreover have "signals (resolve k code ?d) ! k = Resolved code"
    using assms(3,4) by (simp add: resolve_pending detach_fields say_def does_fields)
  moreover have "process (resolve k code ?d) = Some q"
    using assms(2) by (simp add: resolve_fields detach_fields say_def does_fields)
  moreover have "promise (resolve k code ?d) = promise s"
    by (simp add: resolve_fields detach_fields say_def does_fields)
  moreover have "length (procs (resolve k code ?d)) = length (procs s)"
    by (simp add: resolve_fields detach_fields say_def does_fields)
  moreover have "trace (resolve k code ?d) = trace s @
      [Console (ProcessExitedWithCode code), Removed Stdout q k, Removed Stderr q k,
       Resolve k code]"
    by (simp add: resolve_fields detach_fields say_def does_fields)
  ultimately show ?thesis by blast
qed

lemma exit_nonzero_keeps_slot_example:
  "Some (255::int) \<noteq> Some 0 \<and>
   process (sound_play ''clip.mp3'' False (init ''48000'' None None [])) = Some 0 \<and>
   0 < length (signals (sound_play ''clip.mp3'' False (init ''48000'' None None []))) \<and>
   signals (sound_play ''clip.mp3'' False (init ''48000'' None None [])) ! 0 = Pending \<and>
   (\<exists>s'. exit_handler 0 SoundDefault (Some 255)
            (sound_play ''clip.mp3'' False (init ''48000'' None None [])) = Inr s' \<and>
         signals s' ! 0 = Resolved (Some 255) \<and> process s' = Some 0 \<and>
         length (procs s') = 1)"
proof -
  let ?s = "sound_play ''clip.mp3'' False (init ''48000'' None None [])"
  have h1: "Some (255::int) \<noteq> Some 0" by simp
  have h2: "process ?s = Some 0"
    by (simp add: sound_play_def execute_def init_def does_def Let_def)
  have h3: "0 < length (signals ?s)"
    by (simp add: sound_play_def execute_def init_def does_def Let_def)
  have h4: "signals ?s ! 0 = Pending"
    by (simp add: sound_play_def execute_def init_def does_def Let_def)
  have h5: "length (procs ?s) = 1"
    by (simp add: sound_play_def execute_def init_def does_def Let_def)
  from exit_nonzero_keeps_slot [OF h1 h2 h3 h4, of SoundDefault] h5
  have "\<exists>s'. exit_handler 0 SoundDefault (Some 255) ?s = Inr s' \<and>
         signals s' ! 0 = Resolved (Some 255) \<and> process s' = Some 0 \<and>
         length (procs s') = 1"
    by auto
  with h1 h2 h3 h4 show ?thesis by blast
qed

lemma sound_play_idle:
  "process s = None \<Longrightarrow>
   sound_play pathname loop s =
     s\<lparr>process := Some (length (procs s)), promise := Some (length (procs s)),
       procs := procs s @ [new_proc (length (procs s)) (sound_args s pathname loop) SoundDefault],
       signals := signals s @ [Pending],
       trace := trace s @ [Spawned (length (procs s)) (sound_args s pathname loop),
                           Added Stdout (length (procs s)) (length (procs s)),
                           Added Stderr (length (procs s)) (length (procs s))]\<rparr>"
  by (simp add: sound_play_def execute_idle)

lemma video_play_idle:
  "process s = None \<Longrightarrow> existsSync s pathname \<Longrightarrow>
   video_play pathname loop s =
     s\<lparr>process := Some (length (procs s)), promise := Some (length (procs s)),
       procs := procs s @ [new_proc (length (procs s)) (video_args s pathname loop) VideoDefault],
       signals := signals s @ [Pending],
       trace := trace s @ [Spawned (length (procs s)) (video_args s pathname loop),
                           Added Stdout (length (procs s)) (length (procs s)),
                           Added Stderr (length (procs s)) (length (procs s))]\<rparr>"
  by (simp add: video_play_def execute_idle)

lemma video_play_missing:
  "\<not> existsSync s pathname \<Longrightarrow>
   video_play pathname loop s = does [Console (VideoFileNotFound pathname)] s"
  by (simp add: video_play_def say_def)

lemma run_after_trace:
  assumes "process s = None"
  shows "\<exists>rest. trace (run_after cb s) = trace s @ Invoked cb # rest \<and>
           Console AlreadyOnExecution \<notin> set rest"
proof (cases cb)
  case SoundDefault
  have "process (does [Invoked cb] s) = None" using assms by (simp add: does_fields)
  from sound_play_idle [OF this, of "''../silence.opus''" False]
  show ?thesis by (simp add: SoundDefault run_after_def sound_default_def does_fields)
next
  case VideoDefault
  have idle: "process (does [Invoked cb] s) = None" using assms by (simp add: does_fields)
  show ?thesis
  proof (cases "existsSync (does [Invoked cb] s) ''../branding.mjpeg''")
    case True
    from video_play_idle [OF idle True, of True]
    show ?thesis by (simp add: VideoDefault run_after_def video_default_def does_fields)
  next
    case False
    from video_play_missing [OF False, of True]
    show ?thesis by (simp add: VideoDefault run_after_def video_default_def does_fields)
  qed
next
  case StdinEnded
  show ?thesis by (simp add: StdinEnded run_after_def say_def does_fields)
qed

text \<open>
  The order of the actions of the exit handler, run while a process \<open>q\<close> is in the slot:
  the log line, the two calls of \<^verbatim>\<open>removeListener\<close> on the streams of \<open>q\<close>, and last the
  resolution of the promise of \<open>k\<close>. With code 0 the slot is cleared and the callback is
  invoked in between, and nothing that the callback does meets an occupied slot.
\<close>

lemma exit_detaches_before_resolving:
  assumes "process s = Some q"
  shows "\<exists>s' mid. exit_handler k cb code s = Inr s' \<and>
           trace s' = trace s @
             [Console (ProcessExitedWithCode code), Removed Stdout q k, Removed Stderr q k] @
             mid @ [Resolve k code] \<and>
           (code \<noteq> Some 0 \<longrightarrow> mid = []) \<and>
           (code = Some 0 \<longrightarrow>
              (\<exists>rest. mid = SlotCleared # Invoked cb # rest \<and>
                      Console AlreadyOnExecution \<notin> set rest))"
proof (cases "code = Some 0")
  case False
  let ?d = "detach_listeners q k (say (ProcessExitedWithCode code) s)"
  have "exit_handler k cb code s = Inr (resolve k code ?d)"
    using False assms by (rule exit_handler_nonzero)
  moreover have "trace (resolve k code ?d) = trace s @
      [Console (ProcessExitedWithCode code), Removed Stdout q k, Removed Stderr q k] @
      [] @ [Resolve k code]"
    by (simp add: resolve_fields detach_fields say_def does_fields)
  ultimately show ?thesis using False by blast
next
  case True
  let ?c = "does [SlotCleared]
              ((detach_listeners q k (say (ProcessExitedWithCode (Some 0)) s))\<lparr>process := None\<rparr>)"
  have idle: "process ?c = None" by (simp add: does_fields)
  from run_after_trace [OF idle, of cb] obtain rest where
    rest: "trace (run_after cb ?c) = trace ?c @ Invoked cb # rest"
      "Console AlreadyOnExecution \<notin> set rest" by blast
  have tc: "trace ?c = trace s @
      [Console (ProcessExitedWithCode (Some 0)), Removed Stdout q k, Removed Stderr q k,
       SlotCleared]"
    by (simp add: does_fields detach_fields say_def)
  have "exit_handler k cb code s = Inr (resolve k code (run_after cb ?c))"
    using assms True by (simp add: exit_handler_zero)
  moreover have "trace (resolve k code (run_after cb ?c)) = trace s @
      [Console (ProcessExitedWithCode code), Removed Stdout q k, Removed Stderr q k] @
      (SlotCleared # Invoked cb # rest) @ [Resolve k code]"
    using rest(1) tc True by (simp add: resolve_fields)
  ultimately show ?thesis using True rest(2) by blast
qed

lemma exit_detaches_before_resolving_example:
  "process (snd (execute [''-i'', ''-''] StdinEnded (init ''16000'' None None []))) = Some 0 \<and>
   (\<exists>s' mid. exit_handler 0 StdinEnded (Some 0)
                (snd (execute [''-i'', ''-''] StdinEnded (init ''16000'' None None []))) = Inr s' \<and>
       trace s' =
         [Spawned 0 [''-i'', ''-''], Added Stdout 0 0, Added Stderr 0 0,
          Console (ProcessExitedWithCode (Some 0)), Removed Stdout 0 0, Removed Stderr 0 0] @
         mid @ [Resolve 0 (Some 0)])"
proof -
  let ?s = "snd (execute [''-i'', ''-''] StdinEnded (init ''16000'' None None []))"
  have h: "process ?s = Some 0"
    by (simp add: execute_def init_def does_def Let_def)
  have t: "trace ?s = [Spawned 0 [''-i'', ''-''], Added Stdout 0 0, Added Stderr 0 0]"
    by (simp add: execute_def init_def does_def Let_def)
  from exit_detaches_before_resolving [OF h, of 0 StdinEnded "Some 0"] t
  have "\<exists>s' mid. exit_handler 0 StdinEnded (Some 0) ?s = Inr s' \<and>
       trace s' =
         [Spawned 0 [''-i'', ''-''], Added Stdout 0 0, Added Stderr 0 0,
          Console (ProcessExitedWithCode (Some 0)), Removed Stdout 0 0, Removed Stderr 0 0] @
         mid @ [Resolve 0 (Some 0)]"
    by auto
  with h show ?thesis by blast
qed


subsection \<open>The slot and the completion signal\<close>

lemma ended_fields:
  "process (ended k s) = process s"
  "promise (ended k s) = promise s"
  "signals (ended k s) = signals s"
  "awaiting (ended k s) = awaiting s"
  "length (procs (ended k s)) = length (procs s)"
  "trace (ended k s) = trace s"
  by (simp_all add: ended_def map_at_def)

lemma execute_keeps_pairing:
  assumes "process s \<noteq> None \<longrightarrow> promise s = process s"
  shows "process (snd (execute args cb s)) \<noteq> None \<longrightarrow>
         promise (snd (execute args cb s)) = process (snd (execute args cb s))"
proof (cases "process s")
  case None
  then show ?thesis by (simp add: execute_idle)
next
  case (Some q)
  then show ?thesis using assms by (simp add: execute_busy does_fields)
qed

lemma run_after_keeps_pairing:
  assumes "process s = None"
  shows "process (run_after cb s) \<noteq> None \<longrightarrow> promise (run_after cb s) = process (run_after cb s)"
proof -
  have p: "process (does [Invoked cb] s) \<noteq> None \<longrightarrow>
           promise (does [Invoked cb] s) = process (does [Invoked cb] s)"
    using assms by (simp add: does_fields)
  show ?thesis
  proof (cases cb)
    case SoundDefault
    with execute_keeps_pairing [OF p] show ?thesis
      by (simp add: run_after_def sound_default_def sound_play_def)
  next
    case VideoDefault
    with execute_keeps_pairing [OF p] p show ?thesis
      by (simp add: run_after_def video_default_def video_play_def say_def does_fields)
  next
    case StdinEnded
    with p show ?thesis by (simp add: run_after_def say_def does_fields)
  qed
qed

lemma exit_handler_keeps_pairing:
  assumes "process s \<noteq> None \<longrightarrow> promise s = process s"
    and "exit_handler k cb code s = Inr s'"
  shows "process s' \<noteq> None \<longrightarrow> promise s' = process s'"
proof (cases "process s")
  case None
  with assms(2) show ?thesis by (simp add: exit_handler_empty_slot)
next
  case (Some q)
  show ?thesis
  proof (cases "code = Some 0")
    case False
    from exit_handler_nonzero [OF False Some, of k cb] assms
    show ?thesis by (auto simp: resolve_fields detach_fields say_def does_fields)
  next
    case True
    let ?c = "does [SlotCleared]
                ((detach_listeners q k (say (ProcessExitedWithCode (Some 0)) s))\<lparr>process := None\<rparr>)"
    have "process ?c = None" by (simp add: does_fields)
    from run_after_keeps_pairing [OF this, of cb] exit_handler_zero [OF Some, of k cb] assms(2) True
    show ?thesis by (auto simp: resolve_fields)
  qed
qed

lemma error_handler_fields:
  assumes "error_handler k err s = Inr s'"
  shows "process s' = process s \<and> promise s' = promise s"
  using assms
  by (auto simp: error_handler_def Let_def say_def does_fields reject_fields detach_fields
      split: option.splits)

lemma stop_begin_fields:
  assumes "stop_begin s = Inr s'"
  shows "process s' = process s \<and> promise s' = promise s"
  using assms
  by (auto simp: stop_begin_def Let_def say_def does_fields split: option.splits)

lemma stop_finish_clears:
  assumes "stop_finish j s = Inr s'"
  shows "process s' = None \<and> promise s' = None"
  using assms
  by (auto simp: stop_finish_def say_def does_def split: if_splits settle.splits)

lemma step_keeps_pairing:
  assumes "process s \<noteq> None \<longrightarrow> promise s = process s"
    and "step e s = Inr s'"
  shows "process s' \<noteq> None \<longrightarrow> promise s' = process s'"
proof (cases e)
  case (Execute args cb)
  with assms(2) execute_keeps_pairing [OF assms(1), of args cb] show ?thesis
    by (auto simp: step_def)
next
  case (SoundPlay pathname loop)
  with assms(2) execute_keeps_pairing [OF assms(1), of "sound_args s pathname loop" SoundDefault]
  show ?thesis by (auto simp: step_def sound_play_def)
next
  case SoundPlayStdin
  with assms(2) execute_keeps_pairing [OF assms(1), of "stdin_args s" StdinEnded]
  show ?thesis by (auto simp: step_def sound_play_stdin_def split: prod.splits option.splits)
next
  case (VideoPlay pathname loop)
  with assms execute_keeps_pairing [OF assms(1), of "video_args s pathname loop" VideoDefault]
  show ?thesis by (auto simp: step_def video_play_def say_def does_fields split: if_splits)
next
  case Stop
  with assms stop_begin_fields [of s s'] show ?thesis by (auto simp: step_def)
next
  case (StopResume j)
  with assms(2) stop_finish_clears [of j s s'] show ?thesis by (auto simp: step_def)
next
  case (Exit k code)
  have "process (ended k s) \<noteq> None \<longrightarrow> promise (ended k s) = process (ended k s)"
    using assms(1) by (simp add: ended_fields)
  from exit_handler_keeps_pairing [OF this] Exit assms(2) show ?thesis
    by (auto simp: step_def split: if_splits)
next
  case (Error k err)
  with assms error_handler_fields [of k err "ended k s" s'] show ?thesis
    by (auto simp: step_def ended_fields split: if_splits)
qed

lemma run_keeps_pairing:
  "process s \<noteq> None \<longrightarrow> promise s = process s \<Longrightarrow> run evs s = Inr s' \<Longrightarrow>
   process s' \<noteq> None \<longrightarrow> promise s' = process s'"
proof (induction evs arbitrary: s)
  case Nil
  then show ?case by simp
next
  case (Cons e evs)
  from Cons.prems(2) obtain s1 where s1: "step e s = Inr s1" "run evs s1 = Inr s'"
    by (auto split: sum.splits)
  from step_keeps_pairing [OF Cons.prems(1) s1(1)] Cons.IH [OF _ s1(2)]
  show ?case by blast
qed

lemmas run_defs =
  init_def step_def sound_play_def sound_play_stdin_def video_play_def execute_def
  sound_args_def video_args_def stdin_args_def loop_args_def MICRO_DEVICE_def CAMERA_DEVICE_def
  or_default_def existsSync_def new_proc_def does_def say_def map_at_def ended_def
  exit_handler_def error_handler_def detach_listeners_def remove_listener_def drop_last_def
  run_after_def sound_default_def video_default_def resolve_def reject_def settle_signal_def
  stop_begin_def stop_finish_def Let_def

text \<open>
  Claim C1, as amended. In every state that a sequence of calls and events reaches from a
  new controller, a process in the slot comes with a promise in the promise field, the one
  created by the call that spawned that process. The two fields are set together when
  \<^verbatim>\<open>execute\<close> spawns a process and are cleared together when a suspended \<^verbatim>\<open>stop_process\<close>
  resumes; an error event and an exit with a code other than 0 change neither field.
\<close>

theorem slot_present_implies_signal_present:
  assumes "run evs (init rate mic cam fs) = Inr s"
  shows "(process s \<noteq> None \<longrightarrow> promise s = process s) \<and>
         (process s = None \<longrightarrow>
            process (snd (execute args cb s)) = Some (length (procs s)) \<and>
            promise (snd (execute args cb s)) = Some (length (procs s))) \<and>
         (stop_finish j s = Inr s1 \<longrightarrow> process s1 = None \<and> promise s1 = None) \<and>
         (step (Error k err) s = Inr s2 \<longrightarrow> process s2 = process s \<and> promise s2 = promise s) \<and>
         (code \<noteq> Some 0 \<and> step (Exit k code) s = Inr s3 \<longrightarrow>
            process s3 = process s \<and> promise s3 = promise s)"
proof (intro conjI)
  have "process (init rate mic cam fs) \<noteq> None \<longrightarrow>
        promise (init rate mic cam fs) = process (init rate mic cam fs)"
    by (simp add: init_def)
  from run_keeps_pairing [OF this assms]
  show "process s \<noteq> None \<longrightarrow> promise s = process s" .
  show "process s = None \<longrightarrow>
            process (snd (execute args cb s)) = Some (length (procs s)) \<and>
            promise (snd (execute args cb s)) = Some (length (procs s))"
    by (simp add: execute_idle)
  show "stop_finish j s = Inr s1 \<longrightarrow> process s1 = None \<and> promise s1 = None"
    using stop_finish_clears by blast
  show "step (Error k err) s = Inr s2 \<longrightarrow> process s2 = process s \<and> promise s2 = promise s"
    using error_handler_fields [of k err "ended k s" s2]
    by (auto simp: step_def ended_fields split: if_splits)
  show "code \<noteq> Some 0 \<and> step (Exit k code) s = Inr s3 \<longrightarrow>
            process s3 = process s \<and> promise s3 = promise s"
  proof (cases "process s")
    case None
    then show ?thesis
      by (auto simp: step_def exit_handler_empty_slot ended_fields split: if_splits)
  next
    case (Some q)
    then have "process (ended k s) = Some q" by (simp add: ended_fields)
    from exit_handler_nonzero [OF _ this, of code k] show ?thesis
      by (auto simp: step_def ended_fields resolve_fields detach_fields say_def does_fields
          split: if_splits)
  qed
qed

theorem slot_present_implies_signal_present_witness:
  "run [SoundPlay ''clip.mp3'' False, Stop, Exit 0 (Some 255)] (init ''48000'' None None []) =
     Inr (projr (run [SoundPlay ''clip.mp3'' False, Stop, Exit 0 (Some 255)]
                   (init ''48000'' None None []))) \<and>
   process (projr (run [SoundPlay ''clip.mp3'' False, Stop, Exit 0 (Some 255)]
                     (init ''48000'' None None []))) = Some 0 \<and>
   promise (projr (run [SoundPlay ''clip.mp3'' False, Stop, Exit 0 (Some 255)]
                     (init ''48000'' None None []))) = Some 0 \<and>
   stop_finish 0 (projr (run [SoundPlay ''clip.mp3'' False, Stop, Exit 0 (Some 255)]
                           (init ''48000'' None None []))) =
     Inr (projr (run [SoundPlay ''clip.mp3'' False, Stop, Exit 0 (Some 255), StopResume 0]
                   (init ''48000'' None None []))) \<and>
   process (projr (run [SoundPlay ''clip.mp3'' False, Stop, Exit 0 (Some 255), StopResume 0]
                     (init ''48000'' None None []))) = None \<and>
   promise (projr (run [SoundPlay ''clip.mp3'' False, Stop, Exit 0 (Some 255), StopResume 0]
                     (init ''48000'' None None []))) = None \<and>
   run [] (init ''48000'' None None []) = Inr (init ''48000'' None None []) \<and>
   process (init ''48000'' None None []) = None \<and>
   process (snd (execute [''-i'', ''a.mp3''] SoundDefault (init ''48000'' None None []))) = Some 0 \<and>
   promise (snd (execute [''-i'', ''a.mp3''] SoundDefault (init ''48000'' None None []))) = Some 0 \<and>
   run [SoundPlay ''clip.mp3'' False] (init ''48000'' None None []) =
     Inr (sound_play ''clip.mp3'' False (init ''48000'' None None [])) \<and>
   step (Error 0 ''ENOENT'') (sound_play ''clip.mp3'' False (init ''48000'' None None [])) =
     Inr (projr (run [SoundPlay ''clip.mp3'' False, Error 0 ''ENOENT'']
                   (init ''48000'' None None []))) \<and>
   process (projr (run [SoundPlay ''clip.mp3'' False, Error 0 ''ENOENT'']
                     (init ''48000'' None None []))) = Some 0 \<and>
   Some (1::int) \<noteq> Some 0 \<and>
   step (Exit 0 (Some 1)) (sound_play ''clip.mp3'' False (init ''48000'' None None [])) =
     Inr (projr (run [SoundPlay ''clip.mp3'' False, Exit 0 (Some 1)]
                   (init ''48000'' None None []))) \<and>
   promise (projr (run [SoundPlay ''clip.mp3'' False, Exit 0 (Some 1)]
                     (init ''48000'' None None []))) = Some 0"
proof -
  let ?i = "init ''48000'' None None []"
  let ?a = "projr (run [SoundPlay ''clip.mp3'' False, Stop, Exit 0 (Some 255)] ?i)"
  let ?a' = "projr (run [SoundPlay ''clip.mp3'' False, Stop, Exit 0 (Some 255), StopResume 0] ?i)"
  let ?b = "sound_play ''clip.mp3'' False ?i"
  let ?e = "projr (run [SoundPlay ''clip.mp3'' False, Error 0 ''ENOENT''] ?i)"
  let ?x = "projr (run [SoundPlay ''clip.mp3'' False, Exit 0 (Some 1)] ?i)"
  have ra: "run [SoundPlay ''clip.mp3'' False, Stop, Exit 0 (Some 255)] ?i = Inr ?a"
    by (simp add: run_defs)
  have pa: "process ?a = Some 0" by (simp add: run_defs)
  have fa: "stop_finish 0 ?a = Inr ?a'" by (simp add: run_defs)
  have r0: "run [] ?i = Inr ?i" by simp
  have p0: "process ?i = None" by (simp add: init_def)
  have rb: "run [SoundPlay ''clip.mp3'' False] ?i = Inr ?b" by (simp add: step_def)
  have pb: "process ?b = Some 0" "promise ?b = Some 0" by (simp_all add: run_defs)
  have eb: "step (Error 0 ''ENOENT'') ?b = Inr ?e" by (simp add: run_defs)
  have ne: "Some (1::int) \<noteq> Some 0" by simp
  have xb: "step (Exit 0 (Some 1)) ?b = Inr ?x" by (simp add: run_defs)
  note A = slot_present_implies_signal_present [OF ra, of _ _ 0 ?a']
  note B = slot_present_implies_signal_present [OF r0, of "[''-i'', ''a.mp3'']" SoundDefault]
  note C = slot_present_implies_signal_present [OF rb, of _ _ _ _ 0 "''ENOENT''" ?e "Some 1" ?x]
  have "promise ?a = Some 0" using A pa by simp
  moreover have "process ?a' = None \<and> promise ?a' = None" using A fa by blast
  moreover have "process (snd (execute [''-i'', ''a.mp3''] SoundDefault ?i)) = Some 0 \<and>
      promise (snd (execute [''-i'', ''a.mp3''] SoundDefault ?i)) = Some 0"
    using B p0 by (simp add: init_def)
  moreover have "process ?e = Some 0" using C eb pb by simp
  moreover have "promise ?x = Some 0" using C xb ne pb by simp
  ultimately show ?thesis using ra pa fa r0 p0 rb eb ne xb by blast
qed

text \<open>
  Claim C1, as stated, asks that slot and signal are present together or absent together in
  every reachable state, and that both are cleared at every terminal transition. After an
  error event both are still present; after the exit with code 0 of a process started by
  \<^verbatim>\<open>play_stdin\<close> the slot is empty and the promise field still holds the promise.
\<close>

theorem terminal_transition_counterexample:
  "map_sum id process
     (run [SoundPlay ''clip.mp3'' False, Error 0 ''spawn ffmpeg ENOENT'']
        (init ''48000'' None None [])) = Inr (Some 0) \<and>
   map_sum id promise
     (run [SoundPlay ''clip.mp3'' False, Error 0 ''spawn ffmpeg ENOENT'']
        (init ''48000'' None None [])) = Inr (Some 0) \<and>
   map_sum id process
     (run [SoundPlayStdin, Exit 0 (Some 0)] (init ''48000'' None None [])) = Inr None \<and>
   map_sum id promise
     (run [SoundPlayStdin, Exit 0 (Some 0)] (init ''48000'' None None [])) = Inr (Some 0)"
  by (simp add: run_defs)

subsection \<open>The fallback after a successful exit\<close>




subsection \<open>After stop_process, and the listeners of the process in the slot\<close>

text \<open>
  A \<^verbatim>\<open>stop_process\<close> that finds the slot empty returns at once, and one that resumes clears
  both fields; in both cases the next \<^verbatim>\<open>execute\<close> spawns a process. The error handler of
  the process that is in the slot takes the listeners of that process off its streams.
\<close>

lemma stop_then_execute_spawns:
  "(process s = None \<longrightarrow> stop_begin s = Inr (say AlreadyStoped s) \<and>
      fst (execute args cb (say AlreadyStoped s)) = Some (length (procs s))) \<and>
   (stop_finish j s = Inr s' \<longrightarrow>
      process s' = None \<and> promise s' = None \<and>
      fst (execute args cb s') = Some (length (procs s')))"
proof (intro conjI impI)
  assume "process s = None"
  then show "stop_begin s = Inr (say AlreadyStoped s)" by (simp add: stop_begin_def)
  assume "process s = None"
  then have "process (say AlreadyStoped s) = None" by (simp add: say_def does_fields)
  from execute_idle [OF this, of args cb]
  show "fst (execute args cb (say AlreadyStoped s)) = Some (length (procs s))"
    by (simp add: say_def does_fields)
next
  assume f: "stop_finish j s = Inr s'"
  from stop_finish_clears [OF f] show "process s' = None" "promise s' = None" by simp_all
  from stop_finish_clears [OF f] execute_idle [of s' args cb]
  show "fst (execute args cb s') = Some (length (procs s'))" by simp
qed

lemma detach_own_listeners:
  assumes "k < length (procs s)"
    and "stdout_listeners (procs s ! k) = [k]" and "stderr_listeners (procs s ! k) = [k]"
  shows "stdout_listeners (procs (detach_listeners k k s) ! k) = [] \<and>
         stderr_listeners (procs (detach_listeners k k s) ! k) = []"
  using assms
  by (simp add: detach_listeners_def remove_listener_def does_def map_at_def drop_last_def)

lemma error_handler_detaches_slot_process:
  assumes "process s = Some k" and "k < length (procs s)"
    and "stdout_listeners (procs s ! k) = [k]" and "stderr_listeners (procs s ! k) = [k]"
  shows "\<exists>s'. error_handler k err s = Inr s' \<and>
           stdout_listeners (procs s' ! k) = [] \<and> stderr_listeners (procs s' ! k) = []"
proof -
  let ?s0 = "say (ProcessError err) s"
  have "error_handler k err s = Inr (reject k err (detach_listeners k k ?s0))"
    using assms(1) by (simp add: error_handler_def Let_def say_def does_fields)
  moreover have "stdout_listeners (procs (detach_listeners k k ?s0) ! k) = [] \<and>
         stderr_listeners (procs (detach_listeners k k ?s0) ! k) = []"
    using assms(2-4) by (intro detach_own_listeners) (simp_all add: say_def does_fields)
  ultimately show ?thesis by (simp add: reject_fields)
qed

subsection \<open>Runs on which the code leaves the claimed behaviour\<close>

text \<open>
  Claim C4. After a \<^verbatim>\<open>stop_process\<close> on an idle supervisor both fields should be absent.
  A process started by \<^verbatim>\<open>play_stdin\<close> exits with code 0: the exit handler sets
  \<^verbatim>\<open>this.process\<close> to \<^verbatim>\<open>null\<close> and leaves \<^verbatim>\<open>this.promise\<close>. The following \<^verbatim>\<open>stop_process\<close>
  finds the slot empty and returns at once, with the promise still in its field.
\<close>

theorem stop_when_idle_leaves_signal:
  "map_sum id process
     (run [SoundPlayStdin, Exit 0 (Some 0), Stop] (init ''48000'' None None [])) = Inr None \<and>
   map_sum id promise
     (run [SoundPlayStdin, Exit 0 (Some 0), Stop] (init ''48000'' None None [])) = Inr (Some 0) \<and>
   map_sum id (last \<circ> trace)
     (run [SoundPlayStdin, Exit 0 (Some 0), Stop] (init ''48000'' None None [])) =
     Inr (Console AlreadyStoped)"
  by (simp add: run_defs)

text \<open>
  Claim C2. On every exit both stream listeners should be detached before the completion
  signal is resolved. A clip is played, \<^verbatim>\<open>stop\<close> is called, the clip ends by itself with
  code 0, the exit handler starts the silence asset as process 1, and the suspended
  \<^verbatim>\<open>stop_process\<close> resumes and empties the slot. A second clip is played as process 2. When
  process 1 then exits, its handler calls \<^verbatim>\<open>removeListener\<close> on the streams of process 2,
  which is what \<^verbatim>\<open>this.process\<close> holds, and resolves the promise of process 1: that promise
  is resolved while both listeners of process 1 are on its streams.
\<close>

theorem exit_resolves_with_listeners_attached:
  "map_sum id signals
     (run [SoundPlay ''clip.mp3'' False, Stop, Exit 0 (Some 0), StopResume 0,
           SoundPlay ''next.mp3'' False, Exit 1 (Some 1)]
        (init ''48000'' None None [])) =
     Inr [Resolved (Some 0), Resolved (Some 1), Pending] \<and>
   map_sum id (map stdout_listeners \<circ> procs)
     (run [SoundPlay ''clip.mp3'' False, Stop, Exit 0 (Some 0), StopResume 0,
           SoundPlay ''next.mp3'' False, Exit 1 (Some 1)]
        (init ''48000'' None None [])) = Inr [[], [1], [2]] \<and>
   map_sum id (map stderr_listeners \<circ> procs)
     (run [SoundPlay ''clip.mp3'' False, Stop, Exit 0 (Some 0), StopResume 0,
           SoundPlay ''next.mp3'' False, Exit 1 (Some 1)]
        (init ''48000'' None None [])) = Inr [[], [1], [2]] \<and>
   map_sum id (drop 18 \<circ> trace)
     (run [SoundPlay ''clip.mp3'' False, Stop, Exit 0 (Some 0), StopResume 0,
           SoundPlay ''next.mp3'' False, Exit 1 (Some 1)]
        (init ''48000'' None None [])) =
     Inr [Console (ProcessExitedWithCode (Some 1)), Removed Stdout 2 1, Removed Stderr 2 1,
          Resolve 1 (Some 1)]"
  by (simp add: run_defs)

text \<open>
  Claim C7. On an exit with a code other than 0 the completion signal should be resolved
  with that code. After the same beginning (a clip is played, \<^verbatim>\<open>stop\<close> is called, the clip
  ends by itself with code 0, the suspended \<^verbatim>\<open>stop_process\<close> resumes) the slot is empty while
  the silence asset runs as process 1 with a pending promise. When process 1 exits with
  code 1, its handler throws at \<^verbatim>\<open>this.process.stdout\<close> before it reaches \<^verbatim>\<open>resolve\<close>: the
  promise of process 1 is never resolved.
\<close>

theorem exit_nonzero_of_orphan_never_resolves:
  "map_sum id process
     (run [SoundPlay ''clip.mp3'' False, Stop, Exit 0 (Some 0), StopResume 0]
        (init ''48000'' None None [])) = Inr None \<and>
   map_sum id signals
     (run [SoundPlay ''clip.mp3'' False, Stop, Exit 0 (Some 0), StopResume 0]
        (init ''48000'' None None [])) = Inr [Resolved (Some 0), Pending] \<and>
   exit_handler 1 SoundDefault (Some 1)
     (ended 1 (projr (run [SoundPlay ''clip.mp3'' False, Stop, Exit 0 (Some 0), StopResume 0]
                        (init ''48000'' None None [])))) = Inl TypeError \<and>
   run [SoundPlay ''clip.mp3'' False, Stop, Exit 0 (Some 0), StopResume 0, Exit 1 (Some 1)]
     (init ''48000'' None None []) = Inl TypeError"
  by (simp add: run_defs)

text \<open>
  Claim C8. The listeners of every process should be removed exactly once. A clip is
  played, \<^verbatim>\<open>stop\<close> is called, and the clip ends by itself with code 0 before the signal takes
  effect. The exit handler starts the silence asset as process 1; then the suspended
  \<^verbatim>\<open>stop_process\<close> resumes and sets \<^verbatim>\<open>this.process\<close> to \<^verbatim>\<open>null\<close>, although process 1 runs with
  its listeners attached. When process 1 exits, its handler reads \<^verbatim>\<open>this.process.stdout\<close>
  with \<^verbatim>\<open>null\<close> in the field and throws before it removes a listener.
\<close>

theorem orphaned_process_keeps_listeners:
  "map_sum id process
     (run [SoundPlay ''clip.mp3'' False, Stop, Exit 0 (Some 0), StopResume 0]
        (init ''48000'' None None [])) = Inr None \<and>
   map_sum id (map alive \<circ> procs)
     (run [SoundPlay ''clip.mp3'' False, Stop, Exit 0 (Some 0), StopResume 0]
        (init ''48000'' None None [])) = Inr [False, True] \<and>
   map_sum id (map stdout_listeners \<circ> procs)
     (run [SoundPlay ''clip.mp3'' False, Stop, Exit 0 (Some 0), StopResume 0]
        (init ''48000'' None None [])) = Inr [[], [1]] \<and>
   map_sum id (map stderr_listeners \<circ> procs)
     (run [SoundPlay ''clip.mp3'' False, Stop, Exit 0 (Some 0), StopResume 0]
        (init ''48000'' None None [])) = Inr [[], [1]] \<and>
   run [SoundPlay ''clip.mp3'' False, Stop, Exit 0 (Some 0), StopResume 0, Exit 1 (Some 0)]
     (init ''48000'' None None []) = Inl TypeError"
  by (simp add: run_defs)

text \<open>
  Claim C9. \<^verbatim>\<open>play_stdin\<close> should return without throwing when a process is already
  active. With a process in the slot \<^verbatim>\<open>execute\<close> returns \<^verbatim>\<open>null\<close>, and reading \<^verbatim>\<open>stdin\<close> of
  \<^verbatim>\<open>null\<close> throws a \<^verbatim>\<open>TypeError\<close>. With an empty slot the call returns the input stream of
  the process it spawns.
\<close>

theorem play_stdin_while_active_throws:
  "fst (sound_play_stdin (sound_play ''clip.mp3'' False (init ''48000'' None None []))) =
     Inl TypeError \<and>
   run [SoundPlay ''clip.mp3'' False, SoundPlayStdin] (init ''48000'' None None []) =
     Inl TypeError \<and>
   fst (sound_play_stdin (init ''48000'' None None [])) = Inr 0"
  by (simp add: run_defs)

section \<open>Properties of the uploader\<close>

text \<open>
  Claim C10. With the serverless flag set, \<^verbatim>\<open>uploadFile\<close> and \<^verbatim>\<open>uploadDirectory\<close> resolve to
  the empty string for every input, and all they do is log that the upload is skipped: no
  \<^verbatim>\<open>aws\<close> process is spawned.
\<close>

theorem serverless_uploads_are_skipped:
  "isServerless w \<Longrightarrow>
   uploadFile w filePath bucketName s3Path s3Args isAudio = (Inr [], [SkippingUpload]) \<and>
   uploadDirectory w localDir bucketName s3Path s3Args = (Inr [], [SkippingUpload])"
  by (simp add: uploadFile_def uploadDirectory_def)

theorem serverless_uploads_are_skipped_witness:
  "isServerless
     \<lparr>isServerless = True, global_remote = None, S3_ARGS = None, S3_ENDPOINT_env = None,
      accessible = [''rec.mp4''], aws = (\<lambda>args. AwsClose (Some 0) [] [])\<rparr> \<and>
   uploadFile
     \<lparr>isServerless = True, global_remote = None, S3_ARGS = None, S3_ENDPOINT_env = None,
      accessible = [''rec.mp4''], aws = (\<lambda>args. AwsClose (Some 0) [] [])\<rparr>
     ''rec.mp4'' ''bucket'' ''key/rec.mp4'' None False = (Inr [], [SkippingUpload]) \<and>
   uploadDirectory
     \<lparr>isServerless = True, global_remote = None, S3_ARGS = None, S3_ENDPOINT_env = None,
      accessible = [''rec.mp4''], aws = (\<lambda>args. AwsClose (Some 0) [] [])\<rparr>
     ''out'' ''bucket'' ''key/rec.mp4'' None = (Inr [], [SkippingUpload])"
  using serverless_uploads_are_skipped
    [of "\<lparr>isServerless = True, global_remote = None, S3_ARGS = None, S3_ENDPOINT_env = None,
          accessible = [''rec.mp4''], aws = (\<lambda>args. AwsClose (Some 0) [] [])\<rparr>"
        "''rec.mp4''" "''bucket''" "''key/rec.mp4''" None False "''out''"]
  by simp

end
